theory Spec2Isabelle
  imports Complex_Main "HOL-Library.Word"
begin

section \<open>Values of the JavaScript runtime\<close>

text \<open>
  The client (\<^verbatim>\<open>assets/js/app.js\<close>) exchanges JSON with the processing service and with
  the browser's local storage.  A parsed JSON document is a tree; a JavaScript number is
  modelled by a real (JSON numbers are finite, and the client only tests them for being
  zero).  Reading a property that is absent yields \<^verbatim>\<open>undefined\<close>, which is \<open>None\<close> of \<open>json option\<close>.

  A JavaScript string is a sequence of UTF-16 code units.  \<open>utf16\<close> gives the string
  whose code units are the characters of an ASCII text.  Property names, which are only
  compared with the names the client reads, and the texts that the client or the runtime
  makes of ASCII characters only (the timer text, dates in ISO format, object URLs, file
  names) are kept as Isabelle strings.
\<close>

type_synonym js_string = "16 word list"

definition utf16 :: "string \<Rightarrow> js_string" where
  "utf16 s = map of_char s"

datatype json =
    JNull
  | JBool bool
  | JNum real
  | JStr js_string
  | JArr "json list"
  | JObj "(string \<times> json) list"

type_synonym jobject = "(string \<times> json) list"

text \<open>
  Exceptions.  \<open>Error m\<close> is \<^verbatim>\<open>new Error(m)\<close> for a string \<open>m\<close>; \<open>ErrorOf v\<close> is
  \<^verbatim>\<open>new Error(v)\<close> for a value that is not a string (its message is the runtime's
  \<^verbatim>\<open>String(v)\<close>); \<open>TypeError\<close> is raised by the runtime on a property read of
  \<^verbatim>\<open>null\<close> and by a rejected \<^verbatim>\<open>fetch\<close>; \<open>SyntaxError m\<close> is raised by
  \<^verbatim>\<open>response.json()\<close> on a body that is not JSON, with the runtime's message \<open>m\<close>.
\<close>

datatype js_error = Error js_string | ErrorOf json | TypeError | SyntaxError js_string

text \<open>\<^verbatim>\<open>v.k\<close> for a parsed JSON value \<open>v\<close> and one of the property names the client reads.\<close>

fun get_prop :: "json \<Rightarrow> string \<Rightarrow> js_error + json option" where
  "get_prop JNull k = Inl TypeError"
| "get_prop (JObj kvs) k = Inr (map_of kvs k)"
| "get_prop v k = Inr None"

text \<open>JavaScript truthiness, as used by \<^verbatim>\<open>!x\<close> and \<^verbatim>\<open>x || y\<close>.\<close>

fun truthy :: "json option \<Rightarrow> bool" where
  "truthy None = False"
| "truthy (Some JNull) = False"
| "truthy (Some (JBool b)) = b"
| "truthy (Some (JNum n)) = (n \<noteq> 0)"
| "truthy (Some (JStr s)) = (s \<noteq> [])"
| "truthy (Some (JArr xs)) = True"
| "truthy (Some (JObj kvs)) = True"

text \<open>\<^verbatim>\<open>v || d\<close>, and \<^verbatim>\<open>new Error(v)\<close>.\<close>

definition or_else :: "json option \<Rightarrow> json \<Rightarrow> json" where
  "or_else v d = (case v of None \<Rightarrow> d | Some x \<Rightarrow> if truthy v then x else d)"

fun new_Error :: "json \<Rightarrow> js_error" where
  "new_Error (JStr m) = Error m"
| "new_Error v = ErrorOf v"

text \<open>
  \<^verbatim>\<open>JSON.stringify\<close> leaves out the properties of an object whose value is
  \<^verbatim>\<open>undefined\<close>; on the remaining tree, writing the text and parsing it back is the
  identity, so a serialised object literal is modelled by the tree that parsing yields.
\<close>

definition JSON_object :: "(string \<times> json option) list \<Rightarrow> jobject" where
  "JSON_object props = concat (map (\<lambda>(k, v). case v of None \<Rightarrow> [] | Some x \<Rightarrow> [(k, x)]) props)"

subsection \<open>Strings\<close>

text \<open>
  The code units that \<^verbatim>\<open>String.prototype.trim\<close> removes: the white space of ECMAScript
  (U+0009, U+000B, U+000C, U+FEFF and the space separators U+0020, U+00A0, U+1680,
  U+2000 to U+200A, U+202F, U+205F, U+3000) and its line terminators (U+000A, U+000D,
  U+2028, U+2029).  All of them are single code units.
\<close>

definition is_space :: "16 word \<Rightarrow> bool" where
  "is_space c =
     (c \<in> {0x0009, 0x000A, 0x000B, 0x000C, 0x000D, 0x0020, 0x00A0, 0x1680,
            0x2028, 0x2029, 0x202F, 0x205F, 0x3000, 0xFEFF}
      \<or> (0x2000 \<le> c \<and> c \<le> 0x200A))"

text \<open>\<^verbatim>\<open>String.prototype.trim\<close>.\<close>

definition trim :: "js_string \<Rightarrow> js_string" where
  "trim s = rev (dropWhile is_space (rev (dropWhile is_space s)))"

fun string_of_nat :: "nat \<Rightarrow> string" where
  "string_of_nat n =
     (if n < 10 then [''0123456789'' ! n]
      else string_of_nat (n div 10) @ [''0123456789'' ! (n mod 10)])"

declare string_of_nat.simps [simp del]

definition String_int :: "int \<Rightarrow> string" where
  "String_int i = (if i < 0 then ''-'' @ string_of_nat (nat (- i)) else string_of_nat (nat i))"

text \<open>\<^verbatim>\<open>s.padStart(2, '0')\<close>.\<close>

definition padStart2 :: "string \<Rightarrow> string" where
  "padStart2 s = (if length s < 2 then replicate (2 - length s) CHR ''0'' @ s else s)"

text \<open>The remainder operator \<^verbatim>\<open>%\<close> of JavaScript takes the sign of the dividend.\<close>

definition js_rem :: "int \<Rightarrow> int \<Rightarrow> int" where
  "js_rem a b = sgn a * (\<bar>a\<bar> mod \<bar>b\<bar>)"

section \<open>The state of the page\<close>

datatype view = Landing | Recording | Processing | Insights | Settings

text \<open>
  Every \<^verbatim>\<open>alert\<close> of the source is one constructor; its argument is the variable part of
  the text (for the two error alerts, the exception whose \<^verbatim>\<open>message\<close> is appended).
\<close>

datatype alert =
    AlertMicrophone
  | AlertProcessingError js_error
  | AlertDisplayError js_error
  | AlertNothingToExport
  | AlertExported nat
  | AlertExportFailed
  | AlertNothingToDelete
  | AlertDeleted

type_synonym chunk = string

text \<open>
  The variables of the \<^verbatim>\<open>DOMContentLoaded\<close> closure, and what the page shows and
  keeps: the active view, the timer text, the starter option carrying the class
  \<^verbatim>\<open>selected\<close> (by its text), the value of the free-text field (\<open>None\<close> when the page has
  no such field), the item \<^verbatim>\<open>journalEntries\<close> of local storage (\<open>None\<close> when the key is
  absent; the client only ever stores an array of objects there), the alerts shown, the
  requests sent to the processing service and the files offered for download.
  \<open>recorderStopping\<close> holds between \<^verbatim>\<open>mediaRecorder.stop()\<close> and the delivery of the
  recorder's \<^verbatim>\<open>dataavailable\<close> and \<^verbatim>\<open>stop\<close> events.
\<close>

record app =
  view :: view
  mediaRecorder :: bool
  recorderStopping :: bool
  audioChunks :: "chunk list"
  audioBlob :: "chunk list option"
  audioUrl :: "string option"
  startTime :: int
  pausedTime :: int
  isRecording :: bool
  isPaused :: bool
  isCancelled :: bool
  timerText :: string
  selectedOption :: "js_string option"
  customStarter :: "js_string option"
  journalEntries :: "jobject list option"
  alerts :: "alert list"
  requests :: "(chunk list \<times> js_string) list"
  downloads :: "(string \<times> json) list"

text \<open>
  The page after loading.  \<^verbatim>\<open>startTime\<close> is unassigned in the source until
  \<^verbatim>\<open>startRecording\<close> runs; it is never read before.
\<close>

definition initial :: "jobject list option \<Rightarrow> app" where
  "initial stored = \<lparr> view = Landing, mediaRecorder = False, recorderStopping = False,
     audioChunks = [], audioBlob = None, audioUrl = None, startTime = 0, pausedTime = 0,
     isRecording = False, isPaused = False, isCancelled = False, timerText = ''00:00'',
     selectedOption = None, customStarter = Some [], journalEntries = stored,
     alerts = [], requests = [], downloads = [] \<rparr>"

definition showView :: "view \<Rightarrow> app \<Rightarrow> app" where
  "showView v s = s\<lparr>view := v\<rparr>"

definition alert :: "alert \<Rightarrow> app \<Rightarrow> app" where
  "alert a s = s\<lparr>alerts := alerts s @ [a]\<rparr>"

section \<open>Timer\<close>

text \<open>
  The value \<^verbatim>\<open>elapsed\<close> of \<^verbatim>\<open>updateTimer\<close> at clock reading \<open>now\<close> (milliseconds, as
  \<^verbatim>\<open>Date.now()\<close> returns them).
\<close>

definition elapsed :: "int \<Rightarrow> app \<Rightarrow> int" where
  "elapsed now s = (if isPaused s then pausedTime s - startTime s else now - startTime s)"

definition timer_display :: "int \<Rightarrow> string" where
  "timer_display e =
     (let totalSeconds = e div 1000;
          minutes = totalSeconds div 60;
          seconds = js_rem totalSeconds 60
      in padStart2 (String_int minutes) @ '':'' @ padStart2 (String_int seconds))"

definition updateTimer :: "int \<Rightarrow> app \<Rightarrow> app" where
  "updateTimer now s =
     (if \<not> isRecording s then s else s\<lparr>timerText := timer_display (elapsed now s)\<rparr>)"

text \<open>What the timer shows at \<open>now\<close>: nothing is computed unless a recording is live.\<close>

definition displayed_elapsed :: "int \<Rightarrow> app \<Rightarrow> int option" where
  "displayed_elapsed now s = (if \<not> isRecording s then None else Some (elapsed now s))"

section \<open>Recording\<close>

text \<open>
  \<^verbatim>\<open>startRecording\<close>: \<open>granted\<close> tells whether \<^verbatim>\<open>getUserMedia\<close> resolved, \<open>now\<close> is
  the clock reading.  The timer is started with an immediate \<^verbatim>\<open>updateTimer\<close>.
\<close>

definition startRecording :: "bool \<Rightarrow> int \<Rightarrow> app \<Rightarrow> app" where
  "startRecording granted now s =
     (if \<not> granted then alert AlertMicrophone s
      else showView Recording (updateTimer now
             (s\<lparr>mediaRecorder := True, audioChunks := [], isRecording := True,
                 isPaused := False, isCancelled := False, startTime := now,
                 pausedTime := 0, timerText := ''00:00''\<rparr>)))"

definition togglePause :: "int \<Rightarrow> app \<Rightarrow> app" where
  "togglePause now s =
     (if \<not> isRecording s \<or> \<not> mediaRecorder s then s
      else if isPaused s
      then s\<lparr>isPaused := False, startTime := now - (pausedTime s - startTime s)\<rparr>
      else s\<lparr>isPaused := True, pausedTime := now\<rparr>)"

definition stopRecording :: "app \<Rightarrow> app" where
  "stopRecording s =
     (if \<not> isRecording s \<or> \<not> mediaRecorder s then s
      else showView Processing
             (s\<lparr>isCancelled := False, recorderStopping := True, isRecording := False\<rparr>))"

definition cancelRecording :: "app \<Rightarrow> app" where
  "cancelRecording s =
     (if \<not> isRecording s \<or> \<not> mediaRecorder s then s
      else showView Landing
             (s\<lparr>isCancelled := True, recorderStopping := True, isRecording := False\<rparr>))"

section \<open>Topic\<close>

text \<open>A click on the starter option with text \<open>p\<close>, and an \<^verbatim>\<open>input\<close> event of the
  free-text field whose value has become \<open>v\<close>.\<close>

definition select_starter :: "js_string \<Rightarrow> app \<Rightarrow> app" where
  "select_starter p s =
     s\<lparr>selectedOption := Some p,
       customStarter := (case customStarter s of None \<Rightarrow> None | Some _ \<Rightarrow> Some [])\<rparr>"

definition custom_input :: "js_string \<Rightarrow> app \<Rightarrow> app" where
  "custom_input v s =
     (case customStarter s of
        None \<Rightarrow> s
      | Some _ \<Rightarrow>
          s\<lparr>customStarter := Some v,
            selectedOption := (if v \<noteq> [] then None else selectedOption s)\<rparr>)"

text \<open>The topic that \<^verbatim>\<open>processAudio\<close> determines.\<close>

definition resolve_topic :: "app \<Rightarrow> js_string" where
  "resolve_topic s =
     (case selectedOption s of
        Some p \<Rightarrow> trim p
      | None \<Rightarrow>
          (case customStarter s of
             None \<Rightarrow> utf16 ''General reflection''
           | Some v \<Rightarrow> if trim v \<noteq> [] then trim v else utf16 ''General reflection''))"

section \<open>Journal store\<close>

text \<open>\<^verbatim>\<open>JSON.parse(localStorage.getItem('journalEntries') || '[]')\<close>.\<close>

definition stored_entries :: "app \<Rightarrow> jobject list" where
  "stored_entries s = (case journalEntries s of None \<Rightarrow> [] | Some es \<Rightarrow> es)"

definition saveJournalEntry :: "jobject \<Rightarrow> app \<Rightarrow> app" where
  "saveJournalEntry entry s = s\<lparr>journalEntries := Some (stored_entries s @ [entry])\<rparr>"

text \<open>
  \<^verbatim>\<open>getJournalDays\<close>: \<open>local_day\<close> is the runtime's rendering of \<^verbatim>\<open>new Date(entry.date)\<close>
  as \<^verbatim>\<open>YYYY-MM-DD\<close> in the local time zone.
\<close>

definition getJournalDays :: "(json option \<Rightarrow> string) \<Rightarrow> app \<Rightarrow> string list" where
  "getJournalDays local_day s = map (\<lambda>entry. local_day (map_of entry ''date'')) (stored_entries s)"

section \<open>Processing client\<close>

text \<open>
  The outcome of \<^verbatim>\<open>fetch\<close>: the promise is rejected, or a response arrives with its HTTP
  status and what \<^verbatim>\<open>response.json()\<close> makes of its body (\<open>Inl m\<close>: the body is not JSON
  and the runtime raises a \<^verbatim>\<open>SyntaxError\<close> with message \<open>m\<close>).
\<close>

datatype fetch_result = Rejected | Responded nat "js_string + json"

text \<open>\<^verbatim>\<open>response.ok\<close>.\<close>

definition ok :: "nat \<Rightarrow> bool" where
  "ok status = (200 \<le> status \<and> status \<le> 299)"

text \<open>
  What the environment supplies when a recording ends: the data of the final
  \<^verbatim>\<open>dataavailable\<close> event, the URL that \<^verbatim>\<open>URL.createObjectURL\<close> returns, the outcome of
  the request, the ISO rendering of the current date, and the exception (if any) raised by
  the statements of \<^verbatim>\<open>displayInsights\<close> that fill the page (the page's markup is not
  part of the sources).
\<close>

record stop_env =
  final_chunk :: chunk
  object_url :: string
  fetched :: fetch_result
  iso_now :: string
  dom_error :: "js_error option"

definition invalid_format :: js_string where
  "invalid_format = utf16 ''Invalid data format received from server.''"

text \<open>The body of the \<^verbatim>\<open>try\<close> block of \<^verbatim>\<open>displayInsights\<close>.\<close>

definition displayInsights_body ::
  "stop_env \<Rightarrow> json \<Rightarrow> js_string \<Rightarrow> app \<Rightarrow> js_error + app" where
  "displayInsights_body env data topic s =
     (case get_prop data ''transcript'' of
        Inl e \<Rightarrow> Inl e
      | Inr transcript \<Rightarrow>
          (case (get_prop data ''bullets'', get_prop data ''emotion'', get_prop data ''nextPrompt'') of
             (Inr bullets, Inr emotion, Inr nextPrompt) \<Rightarrow>
               if \<not> truthy transcript \<or> \<not> truthy bullets \<or> \<not> truthy emotion \<or> \<not> truthy nextPrompt
               then Inl (Error invalid_format)
               else (case dom_error env of
                       Some e \<Rightarrow> Inl e
                     | None \<Rightarrow>
                         Inr (showView Insights
                               (saveJournalEntry
                                 (JSON_object
                                   [(''date'', Some (JStr (utf16 (iso_now env)))),
                                    (''topic'', Some (JStr topic)),
                                    (''transcript'', transcript),
                                    (''bullets'', bullets),
                                    (''emotion'', emotion),
                                    (''nextPrompt'', nextPrompt),
                                    (''audioBlobUrl'',
                                      map_option (\<lambda>url. JStr (utf16 url)) (audioUrl s))]) s)))
           | _ \<Rightarrow> Inl TypeError))"

definition displayInsights :: "stop_env \<Rightarrow> json \<Rightarrow> js_string \<Rightarrow> app \<Rightarrow> app" where
  "displayInsights env data topic s =
     (case displayInsights_body env data topic s of
        Inr s' \<Rightarrow> s'
      | Inl e \<Rightarrow> showView Landing (alert (AlertDisplayError e) s))"

text \<open>
  The exception thrown inside the \<^verbatim>\<open>try\<close> block of \<^verbatim>\<open>processAudio\<close> before
  \<^verbatim>\<open>displayInsights\<close> is reached, if any; otherwise the payload.
\<close>

definition http_error :: "nat \<Rightarrow> js_string" where
  "http_error status = utf16 (''HTTP error! status: '' @ string_of_nat status)"

definition await_response :: "fetch_result \<Rightarrow> js_error + json" where
  "await_response r =
     (case r of
        Rejected \<Rightarrow> Inl TypeError
      | Responded status body \<Rightarrow>
          if \<not> ok status
          then (case body of
                  Inl m \<Rightarrow> Inl (SyntaxError m)
                | Inr errorData \<Rightarrow>
                    (case get_prop errorData ''error'' of
                       Inl e \<Rightarrow> Inl e
                     | Inr err \<Rightarrow> Inl (new_Error (or_else err (JStr (http_error status))))))
          else (case body of Inl m \<Rightarrow> Inl (SyntaxError m) | Inr data \<Rightarrow> Inr data))"

definition processAudio :: "stop_env \<Rightarrow> app \<Rightarrow> app" where
  "processAudio env s =
     (let topic = resolve_topic s;
          s1 = s\<lparr>audioBlob := Some (audioChunks s), audioUrl := Some (object_url env)\<rparr>;
          s2 = (showView Processing s1)\<lparr>requests := requests s1 @ [(audioChunks s, topic)]\<rparr>
      in case await_response (fetched env) of
           Inr data \<Rightarrow> displayInsights env data topic s2
         | Inl e \<Rightarrow> showView Landing (alert (AlertProcessingError e) s2))"

text \<open>
  The recorder's events after \<^verbatim>\<open>mediaRecorder.stop()\<close>: \<^verbatim>\<open>dataavailable\<close> with the
  recorded data, then \<^verbatim>\<open>stop\<close>, whose listener processes the audio unless the recording
  was cancelled.  They are delivered once the click handler that called \<^verbatim>\<open>stop()\<close> has
  returned.
\<close>

definition recorder_events :: "stop_env \<Rightarrow> app \<Rightarrow> app" where
  "recorder_events env s =
     (let s1 = s\<lparr>audioChunks := audioChunks s @ [final_chunk env], recorderStopping := False\<rparr>
      in if \<not> isCancelled s1 then processAudio env s1 else s1)"

definition stop_click :: "stop_env \<Rightarrow> app \<Rightarrow> app" where
  "stop_click env s =
     (let s1 = stopRecording s in if recorderStopping s1 then recorder_events env s1 else s1)"

definition cancel_click :: "stop_env \<Rightarrow> app \<Rightarrow> app" where
  "cancel_click env s =
     (let s1 = cancelRecording s in if recorderStopping s1 then recorder_events env s1 else s1)"

section \<open>Export and deletion\<close>

text \<open>The object literal that \<^verbatim>\<open>exportAllData\<close> builds for one stored entry.\<close>

definition export_entry :: "jobject \<Rightarrow> (string \<times> json option) list" where
  "export_entry entry =
     [(''date'', map_of entry ''date''),
      (''topic'', map_of entry ''topic''),
      (''transcript'', map_of entry ''transcript''),
      (''bullets'', map_of entry ''bullets''),
      (''emotion'', map_of entry ''emotion''),
      (''nextPrompt'', map_of entry ''nextPrompt'')]"

text \<open>The export document, as \<^verbatim>\<open>JSON.stringify(exportData, null, 2)\<close> writes it.\<close>

definition exportData :: "string \<Rightarrow> jobject list \<Rightarrow> json" where
  "exportData stamp entries =
     JObj [(''exportDate'', JStr (utf16 stamp)),
           (''totalEntries'', JNum (real (length entries))),
           (''appVersion'', JStr (utf16 ''1.0.0'')),
           (''entries'', JArr (map (\<lambda>entry. JObj (JSON_object (export_entry entry))) entries))]"

definition export_filename :: "string \<Rightarrow> string" where
  "export_filename stamp =
     ''unposted-journal-'' @ takeWhile (\<lambda>c. c \<noteq> CHR ''T'') stamp @ ''.json''"

text \<open>
  \<^verbatim>\<open>exportAllData\<close>: \<open>stamp\<close> is the ISO rendering of the current date, \<open>browser_ok\<close> tells
  whether the browser carries out the download without raising an exception.
\<close>

definition exportAllData :: "string \<Rightarrow> bool \<Rightarrow> app \<Rightarrow> app" where
  "exportAllData stamp browser_ok s =
     (let entries = stored_entries s
      in if length entries = 0 then alert AlertNothingToExport s
         else if \<not> browser_ok then alert AlertExportFailed s
         else alert (AlertExported (length entries))
                (s\<lparr>downloads := downloads s @ [(export_filename stamp, exportData stamp entries)]\<rparr>))"

text \<open>
  \<^verbatim>\<open>deleteAllData\<close>: \<open>confirmDelete\<close> and \<open>doubleConfirm\<close> are the answers to the two
  \<^verbatim>\<open>confirm\<close> dialogues; the second is asked only after the first was accepted.
\<close>

definition deleteAllData :: "bool \<Rightarrow> bool \<Rightarrow> app \<Rightarrow> app" where
  "deleteAllData confirmDelete doubleConfirm s =
     (if length (stored_entries s) = 0 then alert AlertNothingToDelete s
      else if confirmDelete
      then (if doubleConfirm
            then showView Landing (alert AlertDeleted (s\<lparr>journalEntries := None\<rparr>))
            else s)
      else s)"

section \<open>Events of the page\<close>

datatype event =
    RecordClick bool int
  | PauseClick int
  | StopClick stop_env
  | CancelClick stop_env
  | TimerTick int
  | StarterClick js_string
  | CustomInput js_string
  | ExportClick string bool
  | DeleteClick bool bool
  | Navigate view

fun handle :: "event \<Rightarrow> app \<Rightarrow> app" where
  "handle (RecordClick granted now) s = startRecording granted now s"
| "handle (PauseClick now) s = togglePause now s"
| "handle (StopClick env) s = stop_click env s"
| "handle (CancelClick env) s = cancel_click env s"
| "handle (TimerTick now) s = updateTimer now s"
| "handle (StarterClick p) s = select_starter p s"
| "handle (CustomInput v) s = custom_input v s"
| "handle (ExportClick stamp browser_ok) s = exportAllData stamp browser_ok s"
| "handle (DeleteClick c1 c2) s = deleteAllData c1 c2 s"
| "handle (Navigate v) s = showView v s"

fun run :: "event list \<Rightarrow> app \<Rightarrow> app" where
  "run [] s = s"
| "run (e # es) s = run es (handle e s)"

section \<open>The session of the specification\<close>

text \<open>
  The recording session as the specification words it, for comparison with the code: a
  state, the instants \<open>startedAt\<close> and \<open>pausedAt\<close> (absent until set), and the accumulated
  pause offset.  \<open>start\<close> is valid from \<open>Idle\<close>, \<open>pause\<close> from \<open>Recording\<close>, \<open>resume\<close> from
  \<open>Paused\<close>, where it adds \<open>now - pausedAt\<close> to the offset.
\<close>

datatype session_state = S_Idle | S_Recording | S_Paused | S_Stopping | S_Cancelled

record spec_session =
  state :: session_state
  startedAt :: "int option"
  pausedAt :: "int option"
  accumulatedPauseOffset :: int

definition spec_idle :: spec_session where
  "spec_idle = \<lparr> state = S_Idle, startedAt = None, pausedAt = None, accumulatedPauseOffset = 0 \<rparr>"

definition spec_start :: "int \<Rightarrow> spec_session \<Rightarrow> spec_session" where
  "spec_start now a =
     (if state a = S_Idle
      then a\<lparr>accumulatedPauseOffset := 0, startedAt := Some now, state := S_Recording\<rparr>
      else a)"

definition spec_pause :: "int \<Rightarrow> spec_session \<Rightarrow> spec_session" where
  "spec_pause now a =
     (if state a = S_Recording then a\<lparr>pausedAt := Some now, state := S_Paused\<rparr> else a)"

definition spec_resume :: "int \<Rightarrow> spec_session \<Rightarrow> spec_session" where
  "spec_resume now a =
     (if state a = S_Paused
      then (case pausedAt a of
              None \<Rightarrow> a
            | Some p \<Rightarrow>
                a\<lparr>accumulatedPauseOffset := accumulatedPauseOffset a + (now - p),
                  state := S_Recording\<rparr>)
      else a)"

text \<open>The elapsed-time formula of the specification.\<close>

definition spec_elapsed :: "int \<Rightarrow> spec_session \<Rightarrow> int option" where
  "spec_elapsed now a =
     (case (state a, startedAt a, pausedAt a) of
        (S_Recording, Some t0, _) \<Rightarrow> Some (now - t0 - accumulatedPauseOffset a)
      | (S_Paused, Some t0, Some p) \<Rightarrow> Some (p - t0 - accumulatedPauseOffset a)
      | _ \<Rightarrow> None)"

text \<open>
  The page has one control for both operations: a click on it is \<open>resume\<close> when the
  session is paused and \<open>pause\<close> otherwise.  A pause/resume history is the list of the
  instants of these clicks.
\<close>

definition spec_click :: "int \<Rightarrow> spec_session \<Rightarrow> spec_session" where
  "spec_click now a = (if state a = S_Paused then spec_resume now a else spec_pause now a)"

fun spec_history :: "int list \<Rightarrow> spec_session \<Rightarrow> spec_session" where
  "spec_history [] a = a"
| "spec_history (t # ts) a = spec_history ts (spec_click t a)"

text \<open>How a live recording of the page corresponds to a session of the specification.\<close>

definition corresponds :: "app \<Rightarrow> spec_session \<Rightarrow> bool" where
  "corresponds s a =
     (isRecording s \<and> mediaRecorder s \<and>
      state a = (if isPaused s then S_Paused else S_Recording) \<and>
      (case startedAt a of
         None \<Rightarrow> False
       | Some t0 \<Rightarrow> startTime s = t0 + accumulatedPauseOffset a) \<and>
      (if isPaused s then pausedAt a = Some (pausedTime s) else True))"

section \<open>Notions used in the statements\<close>

text \<open>A payload has the field \<open>k\<close> when reading it yields a value.\<close>

definition has_field :: "json \<Rightarrow> string \<Rightarrow> bool" where
  "has_field data k = (case get_prop data k of Inr (Some v) \<Rightarrow> True | _ \<Rightarrow> False)"

definition required_fields :: "string list" where
  "required_fields = [''transcript'', ''bullets'', ''emotion'', ''nextPrompt'']"

definition exported_fields :: "string list" where
  "exported_fields = [''date'', ''topic'', ''transcript'', ''bullets'', ''emotion'', ''nextPrompt'']"

text \<open>
  Two pages that are the same, or that are both without a live recording and differ at
  most in the content of \<^verbatim>\<open>audioChunks\<close>.
\<close>

definition idle_except_chunks :: "app \<Rightarrow> app \<Rightarrow> bool" where
  "idle_except_chunks s1 s2 =
     (s1 = s2 \<or>
      (\<not> isRecording s1 \<and> \<not> recorderStopping s1 \<and> s2 = s1\<lparr>audioChunks := audioChunks s2\<rparr>))"

subsection \<open>Sample inputs\<close>

definition sample_env :: "fetch_result \<Rightarrow> stop_env" where
  "sample_env r = \<lparr> final_chunk = ''audio'', object_url = ''blob:1'', fetched = r,
     iso_now = ''2024-05-01T10:00:00.000Z'', dom_error = None \<rparr>"

definition sample_emotion :: json where
  "sample_emotion = JObj [(''energy'', JNum 0.5), (''valence'', JNum (- 0.25)), (''summary'', JStr (utf16 ''calm''))]"

definition sample_bullets :: json where
  "sample_bullets = JArr [JObj [(''text'', JStr (utf16 ''slept well'')), (''type'', JStr (utf16 ''supportive''))]]"

definition payload_without_emotion :: json where
  "payload_without_emotion =
     JObj [(''transcript'', JStr (utf16 ''a good day'')), (''bullets'', sample_bullets),
           (''nextPrompt'', JStr (utf16 ''what next?''))]"

definition payload_empty_transcript :: json where
  "payload_empty_transcript =
     JObj [(''transcript'', JStr []), (''bullets'', sample_bullets),
           (''emotion'', sample_emotion), (''nextPrompt'', JStr (utf16 ''what next?''))]"

definition payload_complete :: json where
  "payload_complete =
     JObj [(''transcript'', JStr (utf16 ''a good day'')), (''bullets'', sample_bullets),
           (''emotion'', sample_emotion), (''nextPrompt'', JStr (utf16 ''what next?''))]"

definition sample_entry :: jobject where
  "sample_entry =
     [(''date'', JStr (utf16 ''2024-05-01T10:00:00.000Z'')), (''topic'', JStr (utf16 ''Work'')),
      (''transcript'', JStr (utf16 ''a good day'')), (''bullets'', sample_bullets),
      (''emotion'', sample_emotion), (''nextPrompt'', JStr (utf16 ''what next?'')),
      (''audioBlobUrl'', JStr (utf16 ''blob:1''))]"

text \<open>A page on which a recording was started at instant 0.\<close>

definition live :: app where
  "live = startRecording True 0 (initial None)"

section \<open>Facts about strings\<close>

lemma utf16_eq_Nil [simp]: "utf16 s = [] \<longleftrightarrow> s = []"
  by (simp add: utf16_def)

text \<open>White space beyond ASCII is removed at both ends, other text is kept.\<close>

lemma trim_unicode_examples:
  "trim [0x00A0, 0x2003, 0xFEFF, 0x3000, 0x2028] = []"
  "trim ([0xFEFF, 0x0009] @ utf16 ''my day'' @ [0x00A0, 0x000A]) = utf16 ''my day''"
  "trim (utf16 ''my  day'') = utf16 ''my  day''"
  by (simp_all add: trim_def is_space_def utf16_def)

section \<open>Elapsed time\<close>

lemma corresponds_start: "corresponds (startRecording True t0 s) (spec_start t0 spec_idle)"
  by (simp add: corresponds_def startRecording_def spec_start_def spec_idle_def
      showView_def updateTimer_def)

lemma corresponds_click:
  assumes "corresponds s a"
  shows "corresponds (togglePause t s) (spec_click t a)"
  using assms
  by (auto simp: corresponds_def togglePause_def spec_click_def spec_pause_def spec_resume_def
      split: option.splits if_splits)

lemma corresponds_history:
  "corresponds s a \<Longrightarrow> corresponds (run (map PauseClick ts) s) (spec_history ts a)"
  by (induction ts arbitrary: s a) (simp_all add: corresponds_click)

lemma corresponds_elapsed:
  "corresponds s a \<Longrightarrow> displayed_elapsed now s = spec_elapsed now a"
  by (auto simp: corresponds_def displayed_elapsed_def elapsed_def spec_elapsed_def
      split: option.splits if_splits)

lemma corresponds_paused: "corresponds s a \<Longrightarrow> isPaused s = (state a = S_Paused)"
  by (auto simp: corresponds_def split: if_splits)

text \<open>
  Claim C1.  A recording is started at \<open>t0\<close> and the pause control is clicked at the
  instants \<open>ts\<close>, whatever they are.  At every later clock reading \<open>now\<close> the elapsed time
  that the timer computes is the one the formula of the specification gives for the same
  history: \<open>now - startedAt - accumulatedPauseOffset\<close> while recording, and
  \<open>pausedAt - startedAt - accumulatedPauseOffset\<close>, which does not depend on \<open>now\<close>, while
  paused; the page is paused exactly when the session of the specification is.  For the
  history start, 2500 ms, pause, 1000 ms, resume, 500 ms the elapsed time is 3000 ms and
  the timer shows 00:03.
\<close>

theorem elapsed_formula:
  "displayed_elapsed now (run (map PauseClick ts) (startRecording True t0 s)) =
     spec_elapsed now (spec_history ts (spec_start t0 spec_idle))
   \<and> isPaused (run (map PauseClick ts) (startRecording True t0 s)) =
       (state (spec_history ts (spec_start t0 spec_idle)) = S_Paused)
   \<and> displayed_elapsed (t0 + 4000)
       (run [PauseClick (t0 + 2500), PauseClick (t0 + 3500)] (startRecording True t0 s)) =
       Some 3000
   \<and> timerText (updateTimer (t0 + 4000)
       (run [PauseClick (t0 + 2500), PauseClick (t0 + 3500)] (startRecording True t0 s))) =
       ''00:03''"
proof -
  let ?s = "startRecording True t0 s"
  have c: "corresponds (run (map PauseClick ts) ?s) (spec_history ts (spec_start t0 spec_idle))"
    by (rule corresponds_history [OF corresponds_start])
  have scenario: "displayed_elapsed (t0 + 4000)
       (run [PauseClick (t0 + 2500), PauseClick (t0 + 3500)] ?s) = Some 3000"
    by (simp add: displayed_elapsed_def elapsed_def togglePause_def startRecording_def
        showView_def updateTimer_def)
  have shown: "timerText (updateTimer (t0 + 4000)
       (run [PauseClick (t0 + 2500), PauseClick (t0 + 3500)] ?s)) = ''00:03''"
    by (simp add: elapsed_def togglePause_def startRecording_def showView_def updateTimer_def
        timer_display_def js_rem_def String_int_def padStart2_def string_of_nat.simps)
  show ?thesis
    using corresponds_elapsed [OF c] corresponds_paused [OF c] scenario shown by simp
qed

text \<open>
  The formula at work on a history with two pauses: paused at 1000 and resumed at 1500,
  paused again at 2000; at 9000 the timer is frozen at 1500 ms.
\<close>

theorem elapsed_formula_witness:
  "displayed_elapsed 9000 (run (map PauseClick [1000, 1500, 2000]) (startRecording True 0 (initial None)))
     = Some 1500
   \<and> spec_elapsed 9000 (spec_history [1000, 1500, 2000] (spec_start 0 spec_idle)) = Some 1500
   \<and> isPaused (run (map PauseClick [1000, 1500, 2000]) (startRecording True 0 (initial None)))"
proof -
  have a: "spec_history [1000, 1500, 2000] (spec_start 0 spec_idle) =
     \<lparr> state = S_Paused, startedAt = Some 0, pausedAt = Some 2000, accumulatedPauseOffset = 500 \<rparr>"
    by (simp add: spec_click_def spec_pause_def spec_resume_def spec_start_def spec_idle_def)
  have "spec_elapsed 9000 (spec_history [1000, 1500, 2000] (spec_start 0 spec_idle)) = Some 1500"
    unfolding a by (simp add: spec_elapsed_def)
  moreover have "state (spec_history [1000, 1500, 2000] (spec_start 0 spec_idle)) = S_Paused"
    unfolding a by simp
  ultimately show ?thesis
    using elapsed_formula [of 9000 "[1000, 1500, 2000]" 0 "initial None"] by simp
qed

section \<open>Cancelling a recording\<close>

lemmas handler_defs =
  startRecording_def togglePause_def stopRecording_def cancelRecording_def stop_click_def
  cancel_click_def updateTimer_def select_starter_def custom_input_def exportAllData_def
  deleteAllData_def showView_def alert_def stored_entries_def

lemma idle_except_chunks_handle:
  assumes "idle_except_chunks s1 s2"
  shows "idle_except_chunks (handle e s1) (handle e s2)"
proof (cases "s1 = s2")
  case True
  then show ?thesis by (simp add: idle_except_chunks_def)
next
  case False
  with assms have idle: "\<not> isRecording s1" "\<not> recorderStopping s1"
    and eq: "s2 = s1\<lparr>audioChunks := audioChunks s2\<rparr>"
    by (auto simp: idle_except_chunks_def)
  obtain cs where s2: "s2 = s1\<lparr>audioChunks := cs\<rparr>" using eq by blast
  show ?thesis
    unfolding s2
    by (cases e)
       (use idle in \<open>auto simp: idle_except_chunks_def handler_defs Let_def split: option.splits\<close>)
qed

lemma idle_except_chunks_run:
  "idle_except_chunks s1 s2 \<Longrightarrow> idle_except_chunks (run es s1) (run es s2)"
  by (induction es arbitrary: s1 s2) (simp_all add: idle_except_chunks_handle)

lemma idle_except_chunks_forget:
  "idle_except_chunks s1 s2 \<Longrightarrow> s1\<lparr>audioChunks := []\<rparr> = s2\<lparr>audioChunks := []\<rparr>"
  unfolding idle_except_chunks_def
proof (elim disjE conjE)
  assume "s2 = s1\<lparr>audioChunks := audioChunks s2\<rparr>"
  then obtain cs where "s2 = s1\<lparr>audioChunks := cs\<rparr>" by blast
  then show ?thesis by simp
qed simp

lemma cancel_click_live:
  assumes "isRecording s" and "mediaRecorder s"
  shows "cancel_click env s =
     s\<lparr>isCancelled := True, recorderStopping := False, isRecording := False,
       view := Landing, audioChunks := audioChunks s @ [final_chunk env]\<rparr>"
  using assms
  by (simp add: cancel_click_def cancelRecording_def recorder_events_def showView_def Let_def)

text \<open>For contrast: a click on stop while a recording is live sends one request.\<close>

lemma stop_click_sends_request:
  assumes "isRecording s" and "mediaRecorder s"
  shows "requests (stop_click env s)
       = requests s @ [(audioChunks s @ [final_chunk env], resolve_topic s)]"
  using assms
  by (simp add: stop_click_def stopRecording_def recorder_events_def processAudio_def
      displayInsights_def displayInsights_body_def saveJournalEntry_def showView_def alert_def
      resolve_topic_def Let_def split: sum.splits option.splits)

text \<open>
  Claim C2, as the code has it.  A click on cancel while a recording is live (recording or
  paused), followed by the recorder's events, leaves the landing view active and no
  recording live, sends no request to the processing service (the list of requests is as
  before, so it is empty for a first session) and builds no artifact; the journal is
  untouched.  The recorded chunks are not cleared by the cancellation: \<^verbatim>\<open>audioChunks\<close>
  keeps them and receives the recorder's final chunk.  The next \<^verbatim>\<open>startRecording\<close>
  empties the array, and nothing reads it before: after any further events \<open>es\<close> the page
  is the one it would be had the array been emptied at once, the array itself apart.
\<close>

theorem cancel_returns_to_idle:
  assumes "isRecording s" and "mediaRecorder s"
  shows "view (cancel_click env s) = Landing
       \<and> \<not> isRecording (cancel_click env s)
       \<and> requests (cancel_click env s) = requests s
       \<and> audioBlob (cancel_click env s) = audioBlob s
       \<and> journalEntries (cancel_click env s) = journalEntries s
       \<and> audioChunks (cancel_click env s) = audioChunks s @ [final_chunk env]
       \<and> audioChunks (startRecording True now (cancel_click env s)) = []
       \<and> (run es (cancel_click env s))\<lparr>audioChunks := []\<rparr>
           = (run es ((cancel_click env s)\<lparr>audioChunks := []\<rparr>))\<lparr>audioChunks := []\<rparr>"
proof -
  let ?c = "cancel_click env s"
  note c = cancel_click_live [OF assms, of env]
  have "idle_except_chunks ?c (?c\<lparr>audioChunks := []\<rparr>)"
    by (simp add: c idle_except_chunks_def)
  then have "idle_except_chunks (run es ?c) (run es (?c\<lparr>audioChunks := []\<rparr>))"
    by (rule idle_except_chunks_run)
  then have "(run es ?c)\<lparr>audioChunks := []\<rparr>
      = (run es (?c\<lparr>audioChunks := []\<rparr>))\<lparr>audioChunks := []\<rparr>"
    by (rule idle_except_chunks_forget)
  moreover have "view ?c = Landing" "\<not> isRecording ?c" "requests ?c = requests s"
    "audioBlob ?c = audioBlob s" "journalEntries ?c = journalEntries s"
    "audioChunks ?c = audioChunks s @ [final_chunk env]"
    by (simp_all add: c)
  moreover have "audioChunks (startRecording True now ?c) = []"
    by (simp add: startRecording_def showView_def updateTimer_def)
  ultimately show ?thesis by simp
qed

text \<open>
  A first recording, paused and then cancelled although the service would have answered:
  no request was sent, and the next recording starts with an empty array.
\<close>

theorem cancel_returns_to_idle_witness:
  "isRecording (togglePause 2500 live) \<and> mediaRecorder (togglePause 2500 live)
   \<and> view (cancel_click (sample_env (Responded 200 (Inr payload_complete)))
        (togglePause 2500 live)) = Landing
   \<and> length (requests (cancel_click (sample_env (Responded 200 (Inr payload_complete)))
        (togglePause 2500 live))) = 0
   \<and> audioBlob (cancel_click (sample_env (Responded 200 (Inr payload_complete)))
        (togglePause 2500 live)) = None
   \<and> audioChunks (startRecording True 9000
        (cancel_click (sample_env (Responded 200 (Inr payload_complete)))
          (togglePause 2500 live))) = []"
proof -
  have live: "isRecording (togglePause 2500 live)" "mediaRecorder (togglePause 2500 live)"
    "requests (togglePause 2500 live) = []" "audioBlob (togglePause 2500 live) = None"
    by (simp_all add: live_def togglePause_def startRecording_def initial_def showView_def
        updateTimer_def)
  show ?thesis
    using live cancel_returns_to_idle [OF live(1,2),
        of "sample_env (Responded 200 (Inr payload_complete))" 9000 "[]"]
    by simp
qed

text \<open>
  A recording cancelled at once: afterwards \<^verbatim>\<open>audioChunks\<close> holds the recorded data, it
  is not empty.
\<close>

theorem cancel_keeps_chunks_counterexample:
  "isRecording live \<and> mediaRecorder live
   \<and> view (cancel_click (sample_env Rejected) live) = Landing
   \<and> audioChunks (cancel_click (sample_env Rejected) live) = [''audio'']
   \<and> audioChunks (cancel_click (sample_env Rejected) live) \<noteq> []"
  by (simp add: cancel_click_def cancelRecording_def recorder_events_def showView_def
      sample_env_def live_def startRecording_def updateTimer_def initial_def Let_def)

section \<open>Responses of the processing service\<close>

lemma get_prop_cases:
  obtains "data = JNull" | kvs where "data = JObj kvs" | "\<And>k. get_prop data k = Inr None"
  by (cases data) auto

lemma displayInsights_body_missing:
  assumes "\<not> list_all (has_field data) required_fields"
  shows "\<exists>e. displayInsights_body env data topic s = Inl e"
proof (cases data rule: get_prop_cases)
  case 1
  then show ?thesis by (simp add: displayInsights_body_def)
next
  case (2 kvs)
  with assms show ?thesis
    by (auto simp: displayInsights_body_def has_field_def required_fields_def
        split: option.splits)
next
  case 3
  then show ?thesis by (simp add: displayInsights_body_def)
qed

lemma processAudio_payload:
  assumes "fetched env = Responded status (Inr data)" and "ok status"
  shows "processAudio env s =
     displayInsights env data (resolve_topic s)
       (s\<lparr>audioBlob := Some (audioChunks s), audioUrl := Some (object_url env),
          view := Processing, requests := requests s @ [(audioChunks s, resolve_topic s)]\<rparr>)"
  using assms by (simp add: processAudio_def await_response_def showView_def Let_def)

lemma displayInsights_rejected:
  assumes "displayInsights_body env data topic s = Inl e"
  shows "displayInsights env data topic s =
     s\<lparr>alerts := alerts s @ [AlertDisplayError e], view := Landing\<rparr>"
  using assms by (simp add: displayInsights_def showView_def alert_def)

lemma processAudio_failed:
  assumes "await_response (fetched env) = Inl e"
  shows "processAudio env s =
     s\<lparr>audioBlob := Some (audioChunks s), audioUrl := Some (object_url env),
       requests := requests s @ [(audioChunks s, resolve_topic s)],
       alerts := alerts s @ [AlertProcessingError e], view := Landing\<rparr>"
  using assms by (simp add: processAudio_def showView_def alert_def Let_def)

lemma await_response_not_ok:
  assumes "\<not> ok status"
  shows "\<exists>e. await_response (Responded status body) = Inl e"
  using assms by (auto simp: await_response_def split: sum.splits)

text \<open>For contrast: a complete payload is saved and the insights view is shown.\<close>

lemma complete_payload_saved:
  "view (stop_click (sample_env (Responded 200 (Inr payload_complete))) live) = Insights
   \<and> journalEntries (stop_click (sample_env (Responded 200 (Inr payload_complete))) live)
       = Some [[(''date'', JStr (utf16 ''2024-05-01T10:00:00.000Z'')),
                (''topic'', JStr (utf16 ''General reflection'')),
                (''transcript'', JStr (utf16 ''a good day'')), (''bullets'', sample_bullets),
                (''emotion'', sample_emotion), (''nextPrompt'', JStr (utf16 ''what next?'')),
                (''audioBlobUrl'', JStr (utf16 ''blob:1''))]]"
  by (simp add: stop_click_def stopRecording_def recorder_events_def processAudio_def
      await_response_def ok_def displayInsights_def displayInsights_body_def
      saveJournalEntry_def stored_entries_def JSON_object_def showView_def alert_def
      resolve_topic_def trim_def sample_env_def payload_complete_def sample_bullets_def
      sample_emotion_def live_def startRecording_def updateTimer_def initial_def Let_def)

text \<open>
  Claim C3.  When the service answers with a success status and a payload in which one of
  the four required fields \<^verbatim>\<open>transcript\<close>, \<^verbatim>\<open>bullets\<close>, \<^verbatim>\<open>emotion\<close>, \<^verbatim>\<open>nextPrompt\<close> is
  missing, the client does not take the answer for a result: it raises the alert of
  \<^verbatim>\<open>displayInsights\<close> for a faulty response, shows the landing view, and the journal in
  local storage is what it was.
\<close>

theorem missing_field_rejected:
  assumes "fetched env = Responded status (Inr data)" and "ok status"
    and "\<not> list_all (has_field data) required_fields"
  shows "view (processAudio env s) = Landing
       \<and> journalEntries (processAudio env s) = journalEntries s
       \<and> (\<exists>e. alerts (processAudio env s) = alerts s @ [AlertDisplayError e])"
proof -
  let ?s2 = "s\<lparr>audioBlob := Some (audioChunks s), audioUrl := Some (object_url env),
          view := Processing, requests := requests s @ [(audioChunks s, resolve_topic s)]\<rparr>"
  obtain e where "displayInsights_body env data (resolve_topic s) ?s2 = Inl e"
    using displayInsights_body_missing [OF assms(3)] by blast
  then have "processAudio env s =
      ?s2\<lparr>alerts := alerts ?s2 @ [AlertDisplayError e], view := Landing\<rparr>"
    by (simp add: processAudio_payload [OF assms(1,2)] displayInsights_rejected)
  then show ?thesis by simp
qed

text \<open>The payload without \<^verbatim>\<open>emotion\<close>, answered with status 200 on a page with one entry.\<close>

theorem missing_field_rejected_witness:
  "fetched (sample_env (Responded 200 (Inr payload_without_emotion)))
     = Responded 200 (Inr payload_without_emotion)
   \<and> ok 200
   \<and> \<not> list_all (has_field payload_without_emotion) required_fields
   \<and> view (processAudio (sample_env (Responded 200 (Inr payload_without_emotion)))
        (initial (Some [sample_entry]))) = Landing
   \<and> journalEntries (processAudio (sample_env (Responded 200 (Inr payload_without_emotion)))
        (initial (Some [sample_entry]))) = Some [sample_entry]"
proof -
  have h1: "fetched (sample_env (Responded 200 (Inr payload_without_emotion)))
     = Responded 200 (Inr payload_without_emotion)"
    by (simp add: sample_env_def)
  have h2: "ok 200" by (simp add: ok_def)
  have h3: "\<not> list_all (has_field payload_without_emotion) required_fields"
    by (simp add: has_field_def required_fields_def payload_without_emotion_def)
  have "journalEntries (initial (Some [sample_entry])) = Some [sample_entry]"
    by (simp add: initial_def)
  then show ?thesis
    using h1 h2 h3 missing_field_rejected [OF h1 h2 h3, of "initial (Some [sample_entry])"]
    by simp
qed

text \<open>
  Claim C10.  The validation tests the fields for falsiness, not for presence: a payload
  that has all four required fields, but whose \<^verbatim>\<open>transcript\<close> or \<^verbatim>\<open>nextPrompt\<close> is the
  empty string, is rejected as having an invalid format; the landing view is shown and no
  entry is added to the journal.
\<close>

theorem falsy_field_rejected:
  assumes "fetched env = Responded status (Inr data)" and "ok status"
    and "list_all (has_field data) required_fields"
    and "get_prop data ''transcript'' = Inr (Some (JStr []))
       \<or> get_prop data ''nextPrompt'' = Inr (Some (JStr []))"
  shows "view (processAudio env s) = Landing
       \<and> journalEntries (processAudio env s) = journalEntries s
       \<and> alerts (processAudio env s) = alerts s @ [AlertDisplayError (Error invalid_format)]"
proof -
  let ?s2 = "s\<lparr>audioBlob := Some (audioChunks s), audioUrl := Some (object_url env),
          view := Processing, requests := requests s @ [(audioChunks s, resolve_topic s)]\<rparr>"
  have "displayInsights_body env data (resolve_topic s) ?s2 = Inl (Error invalid_format)"
    using assms(3,4)
    by (cases data rule: get_prop_cases)
       (auto simp: displayInsights_body_def has_field_def required_fields_def
          split: option.splits)
  then have "processAudio env s =
      ?s2\<lparr>alerts := alerts ?s2 @ [AlertDisplayError (Error invalid_format)], view := Landing\<rparr>"
    by (simp add: processAudio_payload [OF assms(1,2)] displayInsights_rejected)
  then show ?thesis by simp
qed

text \<open>All four fields present, the transcript empty.\<close>

theorem falsy_field_rejected_witness:
  "list_all (has_field payload_empty_transcript) required_fields
   \<and> get_prop payload_empty_transcript ''transcript'' = Inr (Some (JStr []))
   \<and> view (processAudio (sample_env (Responded 200 (Inr payload_empty_transcript)))
        (initial None)) = Landing
   \<and> journalEntries (processAudio (sample_env (Responded 200 (Inr payload_empty_transcript)))
        (initial None)) = None
   \<and> alerts (processAudio (sample_env (Responded 200 (Inr payload_empty_transcript)))
        (initial None)) = [AlertDisplayError (Error invalid_format)]"
proof -
  have h1: "fetched (sample_env (Responded 200 (Inr payload_empty_transcript)))
     = Responded 200 (Inr payload_empty_transcript)"
    by (simp add: sample_env_def)
  have h2: "ok 200" by (simp add: ok_def)
  have h3: "list_all (has_field payload_empty_transcript) required_fields"
    by (simp add: has_field_def required_fields_def payload_empty_transcript_def)
  have h4: "get_prop payload_empty_transcript ''transcript'' = Inr (Some (JStr []))"
    by (simp add: payload_empty_transcript_def)
  have "journalEntries (initial None) = None" "alerts (initial None) = []"
    by (simp_all add: initial_def)
  then show ?thesis
    using h3 h4 falsy_field_rejected [OF h1 h2 h3 disjI1 [OF h4], of "initial None"]
    by simp
qed

text \<open>
  Claim C5, as the code has it.  When the service answers with a status outside 200-299,
  the landing view is shown, exactly one alert of \<^verbatim>\<open>processAudio\<close> is raised and the
  journal is what it was, whatever the body.  When the body is JSON whose \<^verbatim>\<open>error\<close> is a
  non-empty string, the alert carries that message.  When the body is JSON other than
  \<^verbatim>\<open>null\<close> whose \<^verbatim>\<open>error\<close> is absent or falsy, it carries the message made of the HTTP
  status.  (When the body is not JSON, or is \<^verbatim>\<open>null\<close>, reading it raises an exception
  that reaches the \<^verbatim>\<open>catch\<close> block, and no message is made of the status.)
\<close>

theorem http_error_surfaced:
  assumes "fetched env = Responded status body" and "\<not> ok status"
  shows "view (processAudio env s) = Landing
       \<and> journalEntries (processAudio env s) = journalEntries s
       \<and> (\<exists>e. alerts (processAudio env s) = alerts s @ [AlertProcessingError e])
       \<and> (\<forall>errorData m.
            body = Inr errorData \<and> get_prop errorData ''error'' = Inr (Some (JStr m)) \<and> m \<noteq> []
            \<longrightarrow> alerts (processAudio env s) = alerts s @ [AlertProcessingError (Error m)])
       \<and> (\<forall>errorData v.
            body = Inr errorData \<and> errorData \<noteq> JNull
            \<and> get_prop errorData ''error'' = Inr v \<and> \<not> truthy v
            \<longrightarrow> alerts (processAudio env s)
                  = alerts s @ [AlertProcessingError (Error (http_error status))])"
proof -
  obtain e where e: "await_response (fetched env) = Inl e"
    using await_response_not_ok [OF assms(2)] assms(1) by auto
  have 1: "view (processAudio env s) = Landing"
    "journalEntries (processAudio env s) = journalEntries s"
    "alerts (processAudio env s) = alerts s @ [AlertProcessingError e]"
    by (simp_all add: processAudio_failed [OF e])
  have 2: "e = Error m"
    if "body = Inr errorData" "get_prop errorData ''error'' = Inr (Some (JStr m))" "m \<noteq> []"
    for errorData m
    using e that assms by (simp add: await_response_def or_else_def)
  have 3: "e = Error (http_error status)"
    if "body = Inr errorData" "get_prop errorData ''error'' = Inr v" "\<not> truthy v"
    for errorData v
    using e that assms by (simp add: await_response_def or_else_def split: option.splits)
  show ?thesis using 1 2 3 by blast
qed

text \<open>
  Status 500 with the body \<^verbatim>\<open>{"error": "No audio file"}\<close>, and status 503 with the
  body \<^verbatim>\<open>{}\<close>.
\<close>

theorem http_error_surfaced_witness:
  "\<not> ok 500 \<and> \<not> ok 503
   \<and> alerts (processAudio
        (sample_env (Responded 500 (Inr (JObj [(''error'', JStr (utf16 ''No audio file''))]))))
        (initial None)) = [AlertProcessingError (Error (utf16 ''No audio file''))]
   \<and> alerts (processAudio (sample_env (Responded 503 (Inr (JObj [])))) (initial None))
       = [AlertProcessingError (Error (utf16 ''HTTP error! status: 503''))]
   \<and> view (processAudio (sample_env (Responded 503 (Inr (JObj [])))) (initial None)) = Landing
   \<and> journalEntries (processAudio (sample_env (Responded 503 (Inr (JObj [])))) (initial None))
       = None"
proof -
  have n: "\<not> ok 500" "\<not> ok 503" by (simp_all add: ok_def)
  have f: "fetched (sample_env r) = r" for r by (simp add: sample_env_def)
  have i: "alerts (initial None) = []" "journalEntries (initial None) = None"
    by (simp_all add: initial_def)
  have m: "http_error 503 = utf16 ''HTTP error! status: 503''"
    by (simp add: http_error_def string_of_nat.simps)
  have a: "alerts (processAudio
        (sample_env (Responded 500 (Inr (JObj [(''error'', JStr (utf16 ''No audio file''))]))))
        (initial None)) = [AlertProcessingError (Error (utf16 ''No audio file''))]"
    using http_error_surfaced [OF f n(1), of "Inr (JObj [(''error'', JStr (utf16 ''No audio file''))])"
        "initial None"] i
    by simp
  have b: "alerts (processAudio (sample_env (Responded 503 (Inr (JObj [])))) (initial None))
       = [AlertProcessingError (Error (utf16 ''HTTP error! status: 503''))]
     \<and> view (processAudio (sample_env (Responded 503 (Inr (JObj [])))) (initial None)) = Landing
     \<and> journalEntries (processAudio (sample_env (Responded 503 (Inr (JObj [])))) (initial None))
       = None"
    using http_error_surfaced [OF f n(2), of "Inr (JObj [])" "initial None"] i m
    by simp
  show ?thesis using n a b by simp
qed

text \<open>
  Status 500 with a body that is not JSON (here an empty body): the alert carries the
  parser's message, not the message made of the HTTP status.
\<close>

theorem unparsable_error_body_counterexample:
  "\<not> ok 500
   \<and> alerts (processAudio
        (sample_env (Responded 500 (Inl (utf16 ''Unexpected end of JSON input''))))
        (initial None))
     = [AlertProcessingError (SyntaxError (utf16 ''Unexpected end of JSON input''))]
   \<and> alerts (processAudio
        (sample_env (Responded 500 (Inl (utf16 ''Unexpected end of JSON input''))))
        (initial None))
     \<noteq> [AlertProcessingError (Error (http_error 500))]"
  by (simp add: processAudio_def await_response_def sample_env_def initial_def ok_def
      showView_def alert_def Let_def)

section \<open>The pause control\<close>

text \<open>
  Claim C4, as the code has it.  The page has one control for pausing and resuming.  A
  click on it while no recording is live (idle, or stopping after \<^verbatim>\<open>stopRecording\<close>)
  changes nothing.  While recording it pauses: only \<^verbatim>\<open>isPaused\<close> and \<^verbatim>\<open>pausedTime\<close>
  change.  While paused it is not without effect: it resumes the recording.
\<close>

theorem pause_control:
  "(\<not> isRecording s \<longrightarrow> togglePause now s = s)
   \<and> (isRecording s \<and> mediaRecorder s \<and> \<not> isPaused s \<longrightarrow>
        togglePause now s = s\<lparr>isPaused := True, pausedTime := now\<rparr>)
   \<and> (isRecording s \<and> mediaRecorder s \<and> isPaused s \<longrightarrow>
        togglePause now s
          = s\<lparr>isPaused := False, startTime := now - (pausedTime s - startTime s)\<rparr>
        \<and> \<not> isPaused (togglePause now s))"
  by (simp add: togglePause_def)

text \<open>Clicks on an idle page, on a page that is stopping, while recording and while paused.\<close>

theorem pause_control_witness:
  "togglePause 7 (initial None) = initial None
   \<and> togglePause 7 (stopRecording live) = stopRecording live
   \<and> isPaused (togglePause 2500 live)
   \<and> \<not> isPaused (togglePause 3500 (togglePause 2500 live))"
proof -
  have a: "\<not> isRecording (initial None)" by (simp add: initial_def)
  have c: "isRecording live \<and> mediaRecorder live \<and> \<not> isPaused live"
    by (simp add: live_def startRecording_def initial_def showView_def updateTimer_def)
  have b: "\<not> isRecording (stopRecording live)"
    using c by (simp add: stopRecording_def showView_def)
  have d: "isRecording (togglePause 2500 live) \<and> mediaRecorder (togglePause 2500 live)
      \<and> isPaused (togglePause 2500 live)"
    using c by (simp add: togglePause_def)
  show ?thesis
    using a b c d pause_control [of "initial None" 7] pause_control [of "stopRecording live" 7]
      pause_control [of "togglePause 2500 live" 3500]
    by simp
qed

text \<open>A click on the control of a paused recording changes the page.\<close>

theorem pause_when_paused_counterexample:
  "isPaused (togglePause 2500 live)
   \<and> togglePause 3500 (togglePause 2500 live) \<noteq> togglePause 2500 live"
proof -
  have p: "isPaused (togglePause 2500 live)"
    by (simp add: live_def togglePause_def startRecording_def initial_def showView_def
        updateTimer_def)
  have q: "\<not> isPaused (togglePause 3500 (togglePause 2500 live))"
    by (simp add: live_def togglePause_def startRecording_def initial_def showView_def
        updateTimer_def)
  from p q have "togglePause 3500 (togglePause 2500 live) \<noteq> togglePause 2500 live"
    by metis
  with p show ?thesis by simp
qed

section \<open>Journal store: deletion and export\<close>

text \<open>
  Claim C6.  When the first confirmation is refused, or the first is given and the second
  refused, \<^verbatim>\<open>deleteAllData\<close> leaves the stored journal as it is.  When both are given,
  the journal has no entries afterwards (the key is removed when there were any) and
  \<^verbatim>\<open>getJournalDays\<close> returns no dates.
\<close>

theorem delete_needs_both_confirmations:
  "journalEntries (deleteAllData False doubleConfirm s) = journalEntries s
   \<and> journalEntries (deleteAllData True False s) = journalEntries s
   \<and> stored_entries (deleteAllData True True s) = []
   \<and> getJournalDays local_day (deleteAllData True True s) = []
   \<and> (stored_entries s \<noteq> [] \<longrightarrow> journalEntries (deleteAllData True True s) = None)"
  by (simp add: deleteAllData_def alert_def showView_def stored_entries_def getJournalDays_def
      split: option.splits)

text \<open>A journal of two entries.\<close>

theorem delete_needs_both_confirmations_witness:
  "stored_entries (initial (Some [sample_entry, sample_entry])) \<noteq> []
   \<and> journalEntries (deleteAllData True False (initial (Some [sample_entry, sample_entry])))
       = Some [sample_entry, sample_entry]
   \<and> journalEntries (deleteAllData False True (initial (Some [sample_entry, sample_entry])))
       = Some [sample_entry, sample_entry]
   \<and> journalEntries (deleteAllData True True (initial (Some [sample_entry, sample_entry])))
       = None
   \<and> getJournalDays (\<lambda>d. ''2024-05-01'')
        (deleteAllData True True (initial (Some [sample_entry, sample_entry]))) = []"
proof -
  have h: "stored_entries (initial (Some [sample_entry, sample_entry])) \<noteq> []"
    "journalEntries (initial (Some [sample_entry, sample_entry]))
       = Some [sample_entry, sample_entry]"
    by (simp_all add: stored_entries_def initial_def)
  show ?thesis
    using h delete_needs_both_confirmations
      [of True "initial (Some [sample_entry, sample_entry])" "\<lambda>d. ''2024-05-01''"]
    by simp
qed

lemma JSON_object_Nil: "JSON_object [] = []"
  by (simp add: JSON_object_def)

lemma JSON_object_Cons:
  "JSON_object ((k, v) # props) =
     (case v of None \<Rightarrow> [] | Some x \<Rightarrow> [(k, x)]) @ JSON_object props"
  by (simp add: JSON_object_def)

lemma map_of_JSON_object_absent:
  "k \<notin> fst ` set props \<Longrightarrow> map_of (JSON_object props) k = None"
  by (induction props) (auto simp: JSON_object_Nil JSON_object_Cons split: option.splits)

lemma map_of_JSON_object:
  "distinct (map fst props) \<Longrightarrow>
   map_of (JSON_object props) k = (case map_of props k of None \<Rightarrow> None | Some v \<Rightarrow> v)"
proof (induction props)
  case Nil
  then show ?case by (simp add: JSON_object_Nil)
next
  case (Cons p props)
  obtain k' v where p: "p = (k', v)" by (cases p)
  show ?case
  proof (cases "k = k'")
    case True
    with Cons.prems p have "k' \<notin> fst ` set props" by auto
    then have "map_of (JSON_object props) k' = None" by (rule map_of_JSON_object_absent)
    then show ?thesis using True by (simp add: p JSON_object_Cons split: option.splits)
  next
    case False
    with Cons show ?thesis by (simp add: p JSON_object_Cons split: option.splits)
  qed
qed

lemma export_entry_fields:
  assumes "k \<in> set exported_fields"
  shows "map_of (JSON_object (export_entry entry)) k = map_of entry k"
proof -
  have d: "distinct (map fst (export_entry entry))" by (simp add: export_entry_def)
  have "map_of (export_entry entry) k = Some (map_of entry k)"
    using assms by (auto simp: export_entry_def exported_fields_def)
  then show ?thesis by (simp add: map_of_JSON_object [OF d])
qed

lemma export_entry_no_url:
  "map_of (JSON_object (export_entry entry)) ''audioBlobUrl'' = None"
  by (simp add: map_of_JSON_object_absent export_entry_def)

text \<open>
  Claim C7.  For every array of stored entries, the export document has an array
  \<^verbatim>\<open>entries\<close> of the same length in which, entry by entry, reading any of \<^verbatim>\<open>date\<close>,
  \<^verbatim>\<open>topic\<close>, \<^verbatim>\<open>transcript\<close>, \<^verbatim>\<open>bullets\<close>, \<^verbatim>\<open>emotion\<close>, \<^verbatim>\<open>nextPrompt\<close> yields what
  reading it from the stored entry yields, and reading \<^verbatim>\<open>audioBlobUrl\<close> yields
  \<^verbatim>\<open>undefined\<close>: the playback reference is not in the export.
\<close>

theorem export_roundtrip:
  "\<exists>xs. get_prop (exportData stamp entries) ''entries'' = Inr (Some (JArr xs))
       \<and> length xs = length entries
       \<and> (\<forall>i<length entries. \<forall>k\<in>set exported_fields.
            get_prop (xs ! i) k = Inr (map_of (entries ! i) k))
       \<and> (\<forall>i<length entries. get_prop (xs ! i) ''audioBlobUrl'' = Inr None)"
  by (simp add: exportData_def export_entry_fields export_entry_no_url)

text \<open>The export of one entry that carries a playback reference.\<close>

theorem export_roundtrip_witness:
  "map_of sample_entry ''audioBlobUrl'' = Some (JStr (utf16 ''blob:1''))
   \<and> (\<exists>xs. get_prop (exportData ''2024-05-02T08:00:00.000Z'' [sample_entry]) ''entries''
              = Inr (Some (JArr xs))
          \<and> length xs = 1
          \<and> get_prop (xs ! 0) ''topic'' = Inr (Some (JStr (utf16 ''Work'')))
          \<and> get_prop (xs ! 0) ''emotion'' = Inr (Some sample_emotion)
          \<and> get_prop (xs ! 0) ''audioBlobUrl'' = Inr None)"
proof -
  obtain xs where xs:
    "get_prop (exportData ''2024-05-02T08:00:00.000Z'' [sample_entry]) ''entries''
       = Inr (Some (JArr xs))"
    "length xs = length [sample_entry]"
    "\<forall>i<length [sample_entry]. \<forall>k\<in>set exported_fields.
       get_prop (xs ! i) k = Inr (map_of ([sample_entry] ! i) k)"
    "\<forall>i<length [sample_entry]. get_prop (xs ! i) ''audioBlobUrl'' = Inr None"
    using export_roundtrip [of "''2024-05-02T08:00:00.000Z''" "[sample_entry]"] by blast
  have "get_prop (xs ! 0) ''topic'' = Inr (map_of sample_entry ''topic'')"
    "get_prop (xs ! 0) ''emotion'' = Inr (map_of sample_entry ''emotion'')"
    using xs(3) by (simp_all add: exported_fields_def)
  then have "get_prop (xs ! 0) ''topic'' = Inr (Some (JStr (utf16 ''Work'')))"
    "get_prop (xs ! 0) ''emotion'' = Inr (Some sample_emotion)"
    by (simp_all add: sample_entry_def)
  moreover have "get_prop (xs ! 0) ''audioBlobUrl'' = Inr None"
    using xs(4) by simp
  moreover have "map_of sample_entry ''audioBlobUrl'' = Some (JStr (utf16 ''blob:1''))"
    by (simp add: sample_entry_def)
  ultimately show ?thesis using xs(1,2) by auto
qed

text \<open>
  Claim C8.  On an empty journal \<^verbatim>\<open>exportAllData\<close> does nothing but raise the alert that
  there are no entries to export; in particular no download is made.  On a journal of
  \<open>N > 0\<close> entries, when the browser carries out the download, one file is added whose
  document has \<^verbatim>\<open>totalEntries\<close> equal to \<open>N\<close> and an array \<^verbatim>\<open>entries\<close> of length \<open>N\<close>;
  when the browser fails, no file is added.
\<close>

theorem export_counts:
  "(stored_entries s = [] \<longrightarrow>
      exportAllData stamp browser_ok s = alert AlertNothingToExport s
      \<and> downloads (exportAllData stamp browser_ok s) = downloads s)
   \<and> (stored_entries s \<noteq> [] \<and> browser_ok \<longrightarrow>
        (\<exists>doc xs. downloads (exportAllData stamp browser_ok s)
                    = downloads s @ [(export_filename stamp, doc)]
           \<and> get_prop doc ''totalEntries''
               = Inr (Some (JNum (real (length (stored_entries s)))))
           \<and> get_prop doc ''entries'' = Inr (Some (JArr xs))
           \<and> length xs = length (stored_entries s)))
   \<and> (stored_entries s \<noteq> [] \<and> \<not> browser_ok \<longrightarrow>
        downloads (exportAllData stamp browser_ok s) = downloads s)"
  by (simp add: exportAllData_def alert_def exportData_def Let_def)

text \<open>An empty journal (the key absent), and a journal of two entries.\<close>

theorem export_counts_witness:
  "stored_entries (initial None) = []
   \<and> downloads (exportAllData ''2024-05-02T08:00:00.000Z'' True (initial None)) = []
   \<and> alerts (exportAllData ''2024-05-02T08:00:00.000Z'' True (initial None))
       = [AlertNothingToExport]
   \<and> stored_entries (initial (Some [sample_entry, sample_entry])) \<noteq> []
   \<and> (\<exists>doc xs. downloads (exportAllData ''2024-05-02T08:00:00.000Z'' True
                    (initial (Some [sample_entry, sample_entry])))
                  = [(''unposted-journal-2024-05-02.json'', doc)]
          \<and> get_prop doc ''totalEntries'' = Inr (Some (JNum 2))
          \<and> get_prop doc ''entries'' = Inr (Some (JArr xs))
          \<and> length xs = 2)
   \<and> downloads (exportAllData ''2024-05-02T08:00:00.000Z'' False
        (initial (Some [sample_entry, sample_entry]))) = []"
proof -
  let ?stamp = "''2024-05-02T08:00:00.000Z''"
  have e: "stored_entries (initial None) = []" "downloads (initial None) = []"
    "alerts (initial None) = []"
    by (simp_all add: stored_entries_def initial_def)
  have n: "stored_entries (initial (Some [sample_entry, sample_entry]))
      = [sample_entry, sample_entry]"
    "downloads (initial (Some [sample_entry, sample_entry])) = []"
    by (simp_all add: stored_entries_def initial_def)
  have f: "export_filename ?stamp = ''unposted-journal-2024-05-02.json''"
    by (simp add: export_filename_def)
  have 1: "downloads (exportAllData ?stamp True (initial None)) = []
      \<and> alerts (exportAllData ?stamp True (initial None)) = [AlertNothingToExport]"
    using export_counts [of "initial None" ?stamp True] e by (simp add: alert_def)
  have 2: "\<exists>doc xs. downloads (exportAllData ?stamp True
                    (initial (Some [sample_entry, sample_entry])))
                  = [(''unposted-journal-2024-05-02.json'', doc)]
          \<and> get_prop doc ''totalEntries'' = Inr (Some (JNum 2))
          \<and> get_prop doc ''entries'' = Inr (Some (JArr xs))
          \<and> length xs = 2"
    using export_counts [of "initial (Some [sample_entry, sample_entry])" ?stamp True] n f
    by (simp add: numeral_2_eq_2)
  have 3: "downloads (exportAllData ?stamp False
        (initial (Some [sample_entry, sample_entry]))) = []"
    using export_counts [of "initial (Some [sample_entry, sample_entry])" ?stamp False] n
    by simp
  show ?thesis using e(1) n(1) 1 2 3 by simp
qed

section \<open>Topic\<close>

lemma run_starter_clicks:
  "customStarter s \<noteq> None \<Longrightarrow> customStarter (run (map StarterClick ps) s) \<noteq> None"
  by (induction ps arbitrary: s) (auto simp: select_starter_def split: option.splits)

text \<open>
  Claim C9, as the code has it.  The last action decides the topic.  After any clicks on
  starter options followed by typing a non-empty text (on a page that has the free-text
  field), the topic is the typed text with the white space at its ends removed, and no
  starter option; when the typed text is white space only, it is \<open>General reflection\<close>.
  After a click on a starter option the topic is that option's text, trimmed.  When no
  starter option is selected and the free-text field is absent or empty, the topic is
  \<open>General reflection\<close>.
\<close>

theorem topic_last_action_wins:
  "(customStarter s \<noteq> None \<and> v \<noteq> [] \<longrightarrow>
      resolve_topic (custom_input v (run (map StarterClick ps) s))
        = (if trim v = [] then utf16 ''General reflection'' else trim v))
   \<and> resolve_topic (select_starter p s) = trim p
   \<and> (selectedOption s = None \<and> (customStarter s = None \<or> customStarter s = Some []) \<longrightarrow>
        resolve_topic s = utf16 ''General reflection'')"
proof -
  have 1: "resolve_topic (custom_input v (run (map StarterClick ps) s))
        = (if trim v = [] then utf16 ''General reflection'' else trim v)"
    if "customStarter s \<noteq> None" "v \<noteq> []"
    using run_starter_clicks [OF that(1), of ps] that(2)
    by (auto simp: resolve_topic_def custom_input_def split: option.splits)
  have 2: "resolve_topic (select_starter p s) = trim p"
    by (simp add: resolve_topic_def select_starter_def)
  have 3: "resolve_topic s = utf16 ''General reflection''"
    if "selectedOption s = None" "customStarter s = None \<or> customStarter s = Some []"
    using that by (auto simp: resolve_topic_def trim_def)
  show ?thesis using 1 2 3 by blast
qed

text \<open>
  Two clicks on starter options, then the text \<open>my day\<close> typed, once as it is and once
  after a no-break space (U+00A0); and the fresh page.
\<close>

theorem topic_last_action_wins_witness:
  "customStarter (initial None) \<noteq> None
   \<and> resolve_topic (custom_input (utf16 ''my day'')
        (run (map StarterClick [utf16 ''Work'', utf16 ''Family'']) (initial None)))
       = utf16 ''my day''
   \<and> resolve_topic (custom_input (0xA0 # utf16 ''my day'')
        (run (map StarterClick [utf16 ''Work'', utf16 ''Family'']) (initial None)))
       = utf16 ''my day''
   \<and> resolve_topic (select_starter (utf16 ''Work'') (initial None)) = utf16 ''Work''
   \<and> selectedOption (initial None) = None
   \<and> resolve_topic (initial None) = utf16 ''General reflection''"
proof -
  have h: "customStarter (initial None) \<noteq> None" "selectedOption (initial None) = None"
    "customStarter (initial None) = Some []"
    by (simp_all add: initial_def)
  have t: "trim (utf16 ''my day'') = utf16 ''my day''" "trim (utf16 ''Work'') = utf16 ''Work''"
    "trim (0xA0 # utf16 ''my day'') = utf16 ''my day''"
    by (simp_all add: trim_def is_space_def utf16_def)
  have n: "utf16 ''my day'' \<noteq> []" by (simp add: utf16_def)
  show ?thesis
    using h t n
      topic_last_action_wins [of "initial None" "utf16 ''my day''"
        "[utf16 ''Work'', utf16 ''Family'']" "utf16 ''Work''"]
      topic_last_action_wins [of "initial None" "0xA0 # utf16 ''my day''"
        "[utf16 ''Work'', utf16 ''Family'']" "utf16 ''Work''"]
    by simp
qed

text \<open>
  Two clicks on starter options, then a text typed that begins with a blank, and a text of
  two blanks: the topic is not the typed text.
\<close>

theorem typed_text_trimmed_counterexample:
  "resolve_topic (custom_input (utf16 '' my day'')
       (run [StarterClick (utf16 ''Work''), StarterClick (utf16 ''Family'')] (initial None)))
     = utf16 ''my day''
   \<and> resolve_topic (custom_input (utf16 '' my day'')
       (run [StarterClick (utf16 ''Work''), StarterClick (utf16 ''Family'')] (initial None)))
     \<noteq> utf16 '' my day''
   \<and> resolve_topic (custom_input (utf16 ''  '')
       (run [StarterClick (utf16 ''Work''), StarterClick (utf16 ''Family'')] (initial None)))
     = utf16 ''General reflection''"
  by (simp add: resolve_topic_def custom_input_def select_starter_def initial_def trim_def
      is_space_def utf16_def)

end
